theory Spec2Isabelle
  imports Main
begin

section \<open>Shallow embedding of \<open>sagemaker_tensorflow_container/training.py\<close>\<close>

text \<open>
  The module computes, for one host of a training cluster, the \<open>TF_CONFIG\<close> dictionary
  (\<open>_build_tf_config\<close>), puts its JSON form into the process environment
  (\<open>_env_vars_with_tf_config\<close>), and decides which processes to launch on the host
  (\<open>train\<close>, \<open>_run_ps\<close>, \<open>_run_worker\<close>, \<open>_wait_until_master_is_down\<close>).

  Conventions of the embedding:
  \<^item> Python \<open>str\<close> is \<open>string\<close>, Python \<open>int\<close> is \<open>int\<close>, a \<open>dict\<close> is a map.
  \<^item> A raised exception is the \<open>Inl\<close> branch of a sum; each exception the module can
    raise by itself has a constructor of \<open>error\<close>.
  \<^item> Calls into \<open>sagemaker_containers\<close>, \<open>subprocess\<close> and \<open>time\<close> are recorded as
    events of a trace, in the order in which they are issued. The calls are taken to
    return normally. \<open>logger.info\<close> calls do not influence control flow and are not
    recorded.
  \<^item> A leading underscore of a Python name is dropped, since an Isabelle name cannot
    start with one.
\<close>

subsection \<open>Exceptions\<close>

datatype error =
    ValueError_no_ps
      \<comment> \<open>line 74: \<open>raise ValueError('Can not have a ps task if there are no parameter
          servers in the cluster')\<close>\<close>
  | ValueError_not_in_list string
      \<comment> \<open>\<open>list.index(x)\<close> when \<open>x\<close> is not an element: \<open>ValueError: x is not in list\<close>\<close>
  | IndexError_list_index
      \<comment> \<open>\<open>hosts[0]\<close> on the empty list: \<open>IndexError: list index out of range\<close>\<close>
  | TypeError_none_compare
      \<comment> \<open>\<open>None > 0\<close> under Python 3\<close>

fun is_ValueError :: "error \<Rightarrow> bool" where
  "is_ValueError ValueError_no_ps = True"
| "is_ValueError (ValueError_not_in_list x) = True"
| "is_ValueError IndexError_list_index = False"
| "is_ValueError TypeError_none_compare = False"

subsection \<open>Python list primitives used by the module\<close>

definition slice_to :: "'a list \<Rightarrow> int \<Rightarrow> 'a list" where
  \<comment> \<open>\<open>xs[:n]\<close>; a negative bound counts from the end\<close>
  "slice_to xs n =
     (if 0 \<le> n then take (nat n) xs else take (length xs - nat (- n)) xs)"

definition slice_from :: "'a list \<Rightarrow> int \<Rightarrow> 'a list" where
  \<comment> \<open>\<open>xs[n:]\<close>; a negative bound counts from the end\<close>
  "slice_from xs n =
     (if 0 \<le> n then drop (nat n) xs else drop (length xs - nat (- n)) xs)"

fun list_index :: "string list \<Rightarrow> string \<Rightarrow> error + int" where
  \<comment> \<open>\<open>xs.index(x)\<close>: position of the first occurrence, \<open>ValueError\<close> when there is none\<close>
  "list_index [] x = Inl (ValueError_not_in_list x)"
| "list_index (y # ys) x =
     (if y = x then Inr 0
      else (case list_index ys x of Inl e \<Rightarrow> Inl e | Inr i \<Rightarrow> Inr (i + 1)))"

subsection \<open>The \<open>TF_CONFIG\<close> dictionary\<close>

text \<open>
  \<open>{"cluster": {...}, "environment": "cloud", "task": {"index": i, "type": t}}\<close>.
  The inner \<open>cluster\<close> dictionary has the keys \<open>master\<close>, \<open>ps\<close> and \<open>worker\<close> and is kept
  as a map, because the keys \<open>ps\<close> and \<open>worker\<close> are optional.
\<close>

record task_dict =
  task_index :: int
  task_type :: string

record tf_config =
  cluster :: "string \<rightharpoonup> string list"
  environment :: string
  task :: task_dict

subsection \<open>\<open>_is_host_master\<close> and \<open>_build_tf_config\<close>\<close>

text \<open>
  The body of \<open>_build_tf_config\<close> reads its four parameters and calls
  \<open>_is_host_master\<close>; it reads no global variable, no file and no random source. It is
  therefore embedded as a function of \<open>(hosts, current_host, ps_num, ps_task)\<close>.
\<close>

definition is_host_master :: "string list \<Rightarrow> string \<Rightarrow> error + bool" where
  \<comment> \<open>\<open>current_host == hosts[0]\<close>\<close>
  "is_host_master hosts current_host =
     (case hosts of [] \<Rightarrow> Inl IndexError_list_index | h # _ \<Rightarrow> Inr (current_host = h))"

definition host_addresses :: "string list \<Rightarrow> string \<Rightarrow> string list" where
  \<comment> \<open>\<open>['{}:{}'.format(host, port) for host in hosts]\<close>; the port is given as it prints
      (\<open>2222\<close> is the default, \<open>'2223'\<close> is passed for the parameter servers)\<close>
  "host_addresses hosts port = map (\<lambda>host. host @ '':'' @ port) hosts"

definition build_tf_config :: "string list \<Rightarrow> string \<Rightarrow> int \<Rightarrow> bool \<Rightarrow> error + tf_config" where
  "build_tf_config hosts current_host ps_num ps_task =
     (let masters = slice_to hosts 1;
          workers = slice_from hosts 1;
          ps = (if length hosts > 1 \<and> ps_num > 0 then Some (slice_to hosts ps_num) else None);
          c0 = [''master'' \<mapsto> host_addresses masters ''2222''];
          c1 = (case ps of
                  None \<Rightarrow> c0
                | Some l \<Rightarrow> if l \<noteq> [] then c0(''ps'' \<mapsto> host_addresses l ''2223'') else c0);
          c2 = (if workers \<noteq> [] then c1(''worker'' \<mapsto> host_addresses workers ''2222'') else c1);
          result = (\<lambda>ty i. \<lparr>cluster = c2, environment = ''cloud'',
                             task = \<lparr>task_index = i, task_type = ty\<rparr>\<rparr>)
      in if ps_task then
           (case ps of
              None \<Rightarrow> Inl ValueError_no_ps
            | Some l \<Rightarrow>
                (case list_index l current_host of
                   Inl e \<Rightarrow> Inl e
                 | Inr i \<Rightarrow> Inr (result ''ps'' i)))
         else
           (case is_host_master hosts current_host of
              Inl e \<Rightarrow> Inl e
            | Inr True \<Rightarrow> Inr (result ''master'' 0)
            | Inr False \<Rightarrow>
                (case list_index workers current_host of
                   Inl e \<Rightarrow> Inl e
                 | Inr i \<Rightarrow> Inr (result ''worker'' i))))"

subsection \<open>The training environment and \<open>_env_vars_with_tf_config\<close>\<close>

text \<open>
  A value of the environment dictionary handed to a launch is a string. The string that
  \<open>json.dumps\<close> produces for a descriptor is kept symbolic: \<open>JsonDumps cfg\<close> is the
  serialisation of \<open>cfg\<close>.
\<close>

datatype env_value = Str string | JsonDumps tf_config

type_synonym env_vars = "string \<rightharpoonup> env_value"

text \<open>
  The attributes of \<open>TrainingEnv\<close> that the module reads. \<open>to_cmd_args\<close> and
  \<open>to_env_vars\<close> hold what the methods of these names return. The hyperparameter
  \<open>sagemaker_parameter_server_num\<close> is an integer when it is present.
\<close>

record training_env =
  env_hosts :: "string list"
  env_current_host :: string
  additional_framework_parameters :: "string \<rightharpoonup> int"
  env_module_dir :: string
  env_module_name :: string
  to_cmd_args :: "string list"
  to_env_vars :: env_vars

definition SAGEMAKER_PARAMETER_SERVER_NUM :: string where
  "SAGEMAKER_PARAMETER_SERVER_NUM = ''sagemaker_parameter_server_num''"

definition env_vars_with_tf_config :: "training_env \<Rightarrow> bool \<Rightarrow> error + env_vars" where
  \<comment> \<open>\<open>ps_num\<close> is the result of \<open>dict.get\<close>, which is \<open>None\<close> for a missing key. Then
      line 54 evaluates \<open>None > 0\<close> if and only if \<open>len(hosts) > 1\<close> (Python 3 raises
      \<open>TypeError\<close>); otherwise \<open>ps_num\<close> is not inspected and \<open>ps\<close> is \<open>None\<close>, as for
      \<open>ps_num = 0\<close>.\<close>
  "env_vars_with_tf_config env ps_task =
     (let r = (case additional_framework_parameters env SAGEMAKER_PARAMETER_SERVER_NUM of
                 Some ps_num \<Rightarrow>
                   build_tf_config (env_hosts env) (env_current_host env) ps_num ps_task
               | None \<Rightarrow>
                   if length (env_hosts env) > 1 then Inl TypeError_none_compare
                   else build_tf_config (env_hosts env) (env_current_host env) 0 ps_task)
      in case r of
           Inl e \<Rightarrow> Inl e
         | Inr cfg \<Rightarrow> Inr ((to_env_vars env)(''TF_CONFIG'' \<mapsto> JsonDumps cfg)))"

subsection \<open>Launching: \<open>_run_ps\<close>, \<open>_run_worker\<close>\<close>

datatype event =
    RunModule string "string list" env_vars string bool
      \<comment> \<open>\<open>framework.modules.run_module(uri, args, env_vars, name, wait=...)\<close>\<close>
  | WriteEnvVars env_vars
      \<comment> \<open>\<open>framework.modules.write_env_vars(env_vars)\<close>\<close>
  | Run string "string list" env_vars
      \<comment> \<open>\<open>framework.modules.run(name, args, env_vars)\<close>\<close>
  | CheckCall "string list"
      \<comment> \<open>\<open>subprocess.check_call(cmd, ...)\<close>\<close>
  | Sleep int
      \<comment> \<open>\<open>time.sleep(seconds)\<close>\<close>

definition run_module_default_wait :: bool where
  \<comment> \<open>Modelled from the spec: the value of \<open>wait\<close> when \<open>run_module\<close> is called without
      it. \<open>run_module\<close> belongs to \<open>sagemaker_containers\<close>; the spec describes the
      launches that do not pass \<open>wait=False\<close> as blocking.\<close>
  "run_module_default_wait = True"

text \<open>
  An effectful function takes the trace so far and returns the exception raised, if any,
  together with the trace at that moment.
\<close>

definition run_ps :: "training_env \<Rightarrow> event list \<Rightarrow> error option \<times> event list" where
  "run_ps env tr =
     (case env_vars_with_tf_config env True of
        Inl e \<Rightarrow> (Some e, tr)
      | Inr ev \<Rightarrow>
          (None, tr @ [RunModule (env_module_dir env) (to_cmd_args env) ev (env_module_name env) False]))"

definition run_worker :: "training_env \<Rightarrow> bool \<Rightarrow> event list \<Rightarrow> error option \<times> event list" where
  "run_worker env install_module tr =
     (case env_vars_with_tf_config env False of
        Inl e \<Rightarrow> (Some e, tr)
      | Inr ev \<Rightarrow>
          if install_module then
            (None, tr @ [RunModule (env_module_dir env) (to_cmd_args env) ev (env_module_name env)
                           run_module_default_wait])
          else
            (None, tr @ [WriteEnvVars ev, Run (env_module_name env) (to_cmd_args env) ev]))"

definition should_run_ps_on_this_host :: "string list \<Rightarrow> string \<Rightarrow> int \<Rightarrow> bool" where
  \<comment> \<open>\<open>current_host in hosts[:parameter_server_num]\<close>\<close>
  "should_run_ps_on_this_host hosts current_host parameter_server_num =
     (current_host \<in> set (slice_to hosts parameter_server_num))"

subsection \<open>\<open>_wait_until_master_is_down\<close>\<close>

text \<open>
  The loop probes the master with \<open>curl master:2222\<close>. \<open>check_call\<close> returns when
  the exit status of \<open>curl\<close> is 0 and raises \<open>CalledProcessError\<close> otherwise. The exit
  status of the \<open>n\<close>-th probe is \<open>returncode n\<close>. The loop has no other exit, so it is a
  partial function: \<open>None\<close> means that it never returns.
\<close>

definition curl_master :: "string \<Rightarrow> string list" where
  \<comment> \<open>\<open>['curl', '{}:2222'.format(master)]\<close>\<close>
  "curl_master master = [''curl'', master @ '':2222'']"

partial_function (option) wait_until_master_is_down ::
  "(nat \<Rightarrow> int) \<Rightarrow> string \<Rightarrow> nat \<Rightarrow> event list \<Rightarrow> event list option" where
  "wait_until_master_is_down returncode master n tr =
     (if returncode n = 0 then
        wait_until_master_is_down returncode master (Suc n)
          (tr @ [CheckCall (curl_master master), Sleep 10])
      else Some (tr @ [CheckCall (curl_master master)]))"

subsection \<open>\<open>train\<close>\<close>

text \<open>
  \<open>train\<close> returns \<open>None\<close> when it never returns, and otherwise the exception it raised,
  if any, with the trace of the calls it made. The condition
  \<open>len(env.hosts) > 1 and parameter_server_num\<close> holds when the hyperparameter is
  present and not 0.
\<close>

definition train :: "(nat \<Rightarrow> int) \<Rightarrow> training_env \<Rightarrow> (error option \<times> event list) option" where
  "train returncode env =
     (let parameter_server_num = additional_framework_parameters env SAGEMAKER_PARAMETER_SERVER_NUM;
          single = Some (None, [RunModule (env_module_dir env) (to_cmd_args env) (to_env_vars env)
                                  (env_module_name env) run_module_default_wait])
      in case parameter_server_num of
           None \<Rightarrow> single
         | Some num \<Rightarrow>
             if length (env_hosts env) > 1 \<and> num \<noteq> 0 then
               if should_run_ps_on_this_host (env_hosts env) (env_current_host env) num then
                 (case run_ps env [] of
                    (Some e, tr) \<Rightarrow> Some (Some e, tr)
                  | (None, tr) \<Rightarrow>
                      (case run_worker env False tr of
                         (Some e, tr') \<Rightarrow> Some (Some e, tr')
                       | (None, tr') \<Rightarrow>
                           (case env_hosts env of
                              [] \<Rightarrow> Some (Some IndexError_list_index, tr')
                            | master # _ \<Rightarrow>
                                map_option (Pair None)
                                  (wait_until_master_is_down returncode master 0 tr'))))
               else Some (run_worker env True [])
             else single)"

subsection \<open>Example inputs\<close>

definition example_env :: "string list \<Rightarrow> string \<Rightarrow> int option \<Rightarrow> training_env" where
  "example_env hosts current_host ps_num =
     \<lparr>env_hosts = hosts,
      env_current_host = current_host,
      additional_framework_parameters =
        (case ps_num of None \<Rightarrow> Map.empty | Some n \<Rightarrow> [SAGEMAKER_PARAMETER_SERVER_NUM \<mapsto> n]),
      env_module_dir = ''s3://bucket/sourcedir.tar.gz'',
      env_module_name = ''train'',
      to_cmd_args = [''--epochs'', ''1''],
      to_env_vars = [''SM_CURRENT_HOST'' \<mapsto> Str current_host]\<rparr>"

definition cluster_abc_two_ps :: "string \<rightharpoonup> string list" where
  "cluster_abc_two_ps =
     [''master'' \<mapsto> [''a:2222''], ''ps'' \<mapsto> [''a:2223'', ''b:2223''],
      ''worker'' \<mapsto> [''b:2222'', ''c:2222'']]"

definition returncode_down_after :: "nat \<Rightarrow> nat \<Rightarrow> int" where
  \<comment> \<open>the master answers the first \<open>up\<close> probes; afterwards \<open>curl\<close> exits with status 7
      (failed to connect)\<close>
  "returncode_down_after up n = (if n < up then 0 else 7)"

definition returncode_always_up :: "nat \<Rightarrow> int" where
  "returncode_always_up n = 0"

section \<open>Auxiliary facts\<close>

lemma list_index_Inr:
  "list_index xs x = Inr i \<Longrightarrow>
     0 \<le> i \<and> nat i < length xs \<and> xs ! nat i = x \<and> (\<forall>j < nat i. xs ! j \<noteq> x)"
proof (induction xs arbitrary: i)
  case Nil
  then show ?case by simp
next
  case (Cons y ys)
  show ?case
  proof (cases "y = x")
    case True
    with Cons.prems show ?thesis by simp
  next
    case False
    with Cons.prems obtain k where k: "list_index ys x = Inr k" and i: "i = k + 1"
      by (auto split: sum.splits)
    from Cons.IH [OF k] have ih: "0 \<le> k" "nat k < length ys" "ys ! nat k = x"
      "\<forall>j < nat k. ys ! j \<noteq> x" by simp_all
    have n: "nat i = Suc (nat k)" using i ih(1) by simp
    have "\<forall>j < nat i. (y # ys) ! j \<noteq> x"
    proof (intro allI impI)
      fix j assume "j < nat i"
      then show "(y # ys) ! j \<noteq> x" using False ih(4) n by (cases j) auto
    qed
    then show ?thesis using ih n i by simp
  qed
qed

lemma list_index_absent:
  "x \<notin> set xs \<Longrightarrow> list_index xs x = Inl (ValueError_not_in_list x)"
  by (induction xs) auto

lemma list_index_present:
  "x \<in> set xs \<Longrightarrow> \<exists>i. list_index xs x = Inr i"
  by (induction xs) auto

lemma list_index_Inl:
  "list_index xs x = Inl e \<Longrightarrow> e = ValueError_not_in_list x \<and> x \<notin> set xs"
  by (induction xs) (auto split: if_splits sum.splits)


lemma slice_to_pos: "0 < n \<Longrightarrow> slice_to xs n = take (nat n) xs"
  by (simp add: slice_to_def)

lemma slice_to_1: "slice_to xs 1 = take 1 xs"
  by (simp add: slice_to_def)

lemma slice_from_1: "slice_from xs 1 = tl xs"
  by (simp add: slice_from_def drop_Suc)

lemma build_tf_config_Inr:
  assumes "build_tf_config hosts current_host ps_num ps_task = Inr cfg"
  shows "cluster cfg ''master'' = Some (host_addresses (take 1 hosts) ''2222'')"
    and "cluster cfg ''ps'' =
          (if length hosts > 1 \<and> ps_num > 0
           then Some (host_addresses (take (nat ps_num) hosts) ''2223'') else None)"
    and "cluster cfg ''worker'' =
          (if tl hosts \<noteq> [] then Some (host_addresses (tl hosts) ''2222'') else None)"
    and "dom (cluster cfg) \<subseteq> {''master'', ''ps'', ''worker''}"
    and "environment cfg = ''cloud''"
proof -
  define c0 :: "string \<rightharpoonup> string list"
    where "c0 = [''master'' \<mapsto> host_addresses (take 1 hosts) ''2222'']"
  define c1 where "c1 = (if length hosts > 1 \<and> ps_num > 0
     then c0(''ps'' \<mapsto> host_addresses (take (nat ps_num) hosts) ''2223'') else c0)"
  define c2 where "c2 = (if tl hosts \<noteq> []
     then c1(''worker'' \<mapsto> host_addresses (tl hosts) ''2222'') else c1)"
  have ne: "length hosts > 1 \<and> ps_num > 0 \<Longrightarrow> take (nat ps_num) hosts \<noteq> []"
    by (cases hosts) auto
  have "cluster cfg = c2 \<and> environment cfg = ''cloud''"
    using assms ne unfolding build_tf_config_def Let_def c2_def c1_def c0_def
    by (auto simp: slice_to_pos slice_to_1 slice_from_1
        split: if_splits sum.splits bool.splits)
  then have c: "cluster cfg = c2" and e: "environment cfg = ''cloud''" by simp_all
  show "cluster cfg ''master'' = Some (host_addresses (take 1 hosts) ''2222'')"
    by (simp add: c c2_def c1_def c0_def)
  show "cluster cfg ''ps'' =
          (if length hosts > 1 \<and> ps_num > 0
           then Some (host_addresses (take (nat ps_num) hosts) ''2223'') else None)"
    by (simp add: c c2_def c1_def c0_def)
  show "cluster cfg ''worker'' =
          (if tl hosts \<noteq> [] then Some (host_addresses (tl hosts) ''2222'') else None)"
    by (simp add: c c2_def c1_def c0_def)
  show "dom (cluster cfg) \<subseteq> {''master'', ''ps'', ''worker''}"
    by (auto simp: c c2_def c1_def c0_def split: if_splits)
  show "environment cfg = ''cloud''" by (rule e)
qed


lemma build_tf_config_ps_task_Inr:
  assumes "build_tf_config hosts current_host ps_num True = Inr cfg"
  shows "length hosts > 1 \<and> ps_num > 0 \<and> task_type (task cfg) = ''ps'' \<and>
         list_index (take (nat ps_num) hosts) current_host = Inr (task_index (task cfg))"
  using assms unfolding build_tf_config_def Let_def
  by (auto simp: slice_to_pos split: if_splits sum.splits)

lemma build_tf_config_worker_task_Inr:
  assumes "build_tf_config hosts current_host ps_num False = Inr cfg"
  shows "hosts \<noteq> [] \<and>
         (if current_host = hd hosts
          then task cfg = \<lparr>task_index = 0, task_type = ''master''\<rparr>
          else task_type (task cfg) = ''worker'' \<and>
               list_index (tl hosts) current_host = Inr (task_index (task cfg)))"
  using assms unfolding build_tf_config_def Let_def is_host_master_def
  by (cases hosts) (auto simp: slice_from_1 split: if_splits sum.splits bool.splits)

lemma build_tf_config_no_ps:
  assumes "\<not> (length hosts > 1 \<and> ps_num > 0)"
  shows "build_tf_config hosts current_host ps_num True = Inl ValueError_no_ps"
  using assms unfolding build_tf_config_def Let_def by auto

lemma build_tf_config_master:
  assumes "hosts \<noteq> []"
  shows "\<exists>cfg. build_tf_config hosts (hd hosts) ps_num False = Inr cfg \<and>
           task cfg = \<lparr>task_index = 0, task_type = ''master''\<rparr>"
  using assms unfolding build_tf_config_def Let_def is_host_master_def
  by (cases hosts) auto


lemma build_tf_config_not_master:
  assumes "hosts \<noteq> []" "current_host \<noteq> hd hosts"
  shows "list_index (tl hosts) current_host = Inl e \<Longrightarrow>
           build_tf_config hosts current_host ps_num False = Inl e"
    and "list_index (tl hosts) current_host = Inr i \<Longrightarrow>
           \<exists>cfg. build_tf_config hosts current_host ps_num False = Inr cfg \<and>
             task cfg = \<lparr>task_index = i, task_type = ''worker''\<rparr>"
  using assms unfolding build_tf_config_def Let_def is_host_master_def
  by (cases hosts; simp add: slice_from_1)+

lemma build_abc_b_ps:
  "build_tf_config [''a'', ''b'', ''c''] ''b'' 2 True =
     Inr \<lparr>cluster = cluster_abc_two_ps, environment = ''cloud'',
          task = \<lparr>task_index = 1, task_type = ''ps''\<rparr>\<rparr>"
  by (simp add: build_tf_config_def slice_to_def slice_from_def host_addresses_def
      is_host_master_def cluster_abc_two_ps_def)

lemma build_abc_b_worker:
  "build_tf_config [''a'', ''b'', ''c''] ''b'' 2 False =
     Inr \<lparr>cluster = cluster_abc_two_ps, environment = ''cloud'',
          task = \<lparr>task_index = 0, task_type = ''worker''\<rparr>\<rparr>"
  by (simp add: build_tf_config_def slice_to_def slice_from_def host_addresses_def
      is_host_master_def cluster_abc_two_ps_def)

lemma env_abc_b_ps:
  "env_vars_with_tf_config (example_env [''a'', ''b'', ''c''] ''b'' (Some 2)) True =
     Inr [''SM_CURRENT_HOST'' \<mapsto> Str ''b'',
          ''TF_CONFIG'' \<mapsto> JsonDumps \<lparr>cluster = cluster_abc_two_ps, environment = ''cloud'',
             task = \<lparr>task_index = 1, task_type = ''ps''\<rparr>\<rparr>]"
  by (simp add: env_vars_with_tf_config_def example_env_def build_abc_b_ps)

lemma env_abc_b_worker:
  "env_vars_with_tf_config (example_env [''a'', ''b'', ''c''] ''b'' (Some 2)) False =
     Inr [''SM_CURRENT_HOST'' \<mapsto> Str ''b'',
          ''TF_CONFIG'' \<mapsto> JsonDumps \<lparr>cluster = cluster_abc_two_ps, environment = ''cloud'',
             task = \<lparr>task_index = 0, task_type = ''worker''\<rparr>\<rparr>]"
  by (simp add: env_vars_with_tf_config_def example_env_def build_abc_b_worker)

lemma wait_until_master_is_down_up:
  assumes "\<forall>j < up. returncode (n + j) = 0" "returncode (n + up) \<noteq> 0"
  shows "wait_until_master_is_down returncode master n tr =
           Some (tr @ concat (replicate up [CheckCall (curl_master master), Sleep 10]) @
                 [CheckCall (curl_master master)])"
  using assms
proof (induction up arbitrary: n tr)
  case 0
  then have "returncode n \<noteq> 0" by simp
  then show ?case by (subst wait_until_master_is_down.simps) simp
next
  case (Suc up)
  have z: "returncode n = 0" using Suc.prems(1) [rule_format, of 0] by simp
  have a: "\<forall>j < up. returncode (Suc n + j) = 0"
  proof (intro allI impI)
    fix j assume "j < up"
    then show "returncode (Suc n + j) = 0"
      using Suc.prems(1) [rule_format, of "Suc j"] by simp
  qed
  have b: "returncode (Suc n + up) \<noteq> 0" using Suc.prems(2) by simp
  have "wait_until_master_is_down returncode master n tr =
        wait_until_master_is_down returncode master (Suc n)
          (tr @ [CheckCall (curl_master master), Sleep 10])"
    by (subst wait_until_master_is_down.simps) (simp add: z)
  also have "\<dots> = Some ((tr @ [CheckCall (curl_master master), Sleep 10]) @
      concat (replicate up [CheckCall (curl_master master), Sleep 10]) @
      [CheckCall (curl_master master)])"
    by (rule Suc.IH [OF a b])
  finally show ?case by simp
qed

lemma wait_until_master_is_down_Some:
  assumes "wait_until_master_is_down returncode master n tr = Some out"
  shows "\<exists>k \<ge> n. returncode k \<noteq> 0"
proof (rule wait_until_master_is_down.raw_induct
    [where P = "\<lambda>rc m i t r. \<exists>k \<ge> i. rc k \<noteq> 0", OF _ assms])
  fix w :: "(nat \<Rightarrow> int) \<Rightarrow> string \<Rightarrow> nat \<Rightarrow> event list \<Rightarrow> event list option"
  fix rc m i t r
  assume ih: "\<And>rc m i t r. w rc m i t = Some r \<Longrightarrow> \<exists>k \<ge> i. rc k \<noteq> 0"
    and step: "(if rc i = 0
                then w rc m (Suc i) (t @ [CheckCall (curl_master m), Sleep 10])
                else Some (t @ [CheckCall (curl_master m)])) = Some r"
  show "\<exists>k \<ge> i. rc k \<noteq> 0"
  proof (cases "rc i = 0")
    case True
    with step have "w rc m (Suc i) (t @ [CheckCall (curl_master m), Sleep 10]) = Some r"
      by simp
    from ih [OF this] obtain k where "Suc i \<le> k \<and> rc k \<noteq> 0" ..
    then have "i \<le> k \<and> rc k \<noteq> 0" by simp
    then show ?thesis ..
  next
    case False
    then have "i \<le> i \<and> rc i \<noteq> 0" by simp
    then show ?thesis ..
  qed
qed

lemma wait_until_master_is_down_always_up:
  assumes "\<forall>k. returncode k = 0"
  shows "wait_until_master_is_down returncode master n tr = None"
proof (cases "wait_until_master_is_down returncode master n tr")
  case None
  then show ?thesis .
next
  case (Some out)
  from wait_until_master_is_down_Some [OF this] obtain k where "n \<le> k \<and> returncode k \<noteq> 0" ..
  with assms show ?thesis by simp
qed

lemma build_tf_config_ps_host:
  assumes "length hosts > 1" "ps_num > 0" "current_host \<in> set (take (nat ps_num) hosts)"
  shows "\<exists>cfg. build_tf_config hosts current_host ps_num True = Inr cfg"
proof -
  from list_index_present [OF assms(3)] obtain i
    where "list_index (take (nat ps_num) hosts) current_host = Inr i" ..
  then show ?thesis
    using assms(1,2) unfolding build_tf_config_def Let_def
    by (simp add: slice_to_pos)
qed

lemma build_tf_config_member_host:
  assumes "current_host \<in> set hosts"
  shows "\<exists>cfg. build_tf_config hosts current_host ps_num False = Inr cfg"
proof -
  from assms have ne: "hosts \<noteq> []" by auto
  show ?thesis
  proof (cases "current_host = hd hosts")
    case True
    then show ?thesis using build_tf_config_master [OF ne, of ps_num] by auto
  next
    case False
    with assms ne have "current_host \<in> set (tl hosts)" by (cases hosts) auto
    from list_index_present [OF this] obtain i
      where "list_index (tl hosts) current_host = Inr i" ..
    from build_tf_config_not_master(2) [OF ne False this] show ?thesis by auto
  qed
qed





lemma first_failing_probe:
  fixes returncode :: "nat \<Rightarrow> int"
  assumes "returncode k \<noteq> 0"
  shows "\<exists>up. (\<forall>j < up. returncode j = 0) \<and> returncode up \<noteq> 0"
proof -
  from assms have ex: "\<exists>i. returncode i \<noteq> 0" ..
  have "\<exists>n. returncode n \<noteq> 0 \<and> (\<forall>m < n. \<not> returncode m \<noteq> 0)"
    by (rule iffD1 [OF exists_least_iff [of "\<lambda>i. returncode i \<noteq> 0"] ex])
  then obtain n where "returncode n \<noteq> 0 \<and> (\<forall>m < n. \<not> returncode m \<noteq> 0)" ..
  then have "(\<forall>j < n. returncode j = 0) \<and> returncode n \<noteq> 0" by simp
  then show ?thesis ..
qed

section \<open>Properties of topology resolution\<close>

text \<open>
  C1. For every host list, every parameter-server count and every host of the list,
  resolution for a process that is not a parameter server returns a descriptor, and
  resolution for a parameter-server process returns one whenever a parameter-server
  group exists and the host is one of its members. Every descriptor that resolution
  returns, for either kind of process, has a \<open>ps\<close> entry in its cluster dictionary if and
  only if \<open>len(hosts) > 1\<close> and \<open>ps_num > 0\<close>; when present, the entry lists exactly the
  first \<open>min(ps_num, len(hosts))\<close> hosts, each rendered as \<open>host:2223\<close> (a count above
  the length of the list is clamped by the slice); and for a host list of length 1 the
  cluster dictionary has the single key \<open>master\<close>, whatever the count is. Resolution
  raises, and so yields no descriptor, only for a host outside the relevant sub-list, for
  an empty host list, and for a parameter-server process without a group.
\<close>

theorem build_tf_config_ps_entry:
  "(current_host \<in> set hosts \<longrightarrow>
      (\<exists>cfg. build_tf_config hosts current_host ps_num False = Inr cfg)) \<and>
   (length hosts > 1 \<and> ps_num > 0 \<and> current_host \<in> set (take (nat ps_num) hosts) \<longrightarrow>
      (\<exists>cfg. build_tf_config hosts current_host ps_num True = Inr cfg)) \<and>
   (\<forall>cfg. build_tf_config hosts current_host ps_num ps_task = Inr cfg \<longrightarrow>
      (cluster cfg ''ps'' \<noteq> None \<longleftrightarrow> length hosts > 1 \<and> ps_num > 0) \<and>
      (length hosts > 1 \<and> ps_num > 0 \<longrightarrow>
         cluster cfg ''ps'' =
           Some (map (\<lambda>host. host @ '':2223'')
                  (take (min (nat ps_num) (length hosts)) hosts))) \<and>
      (length hosts = 1 \<longrightarrow> dom (cluster cfg) = {''master''}))"
proof (intro conjI allI impI)
  assume "current_host \<in> set hosts"
  then show "\<exists>cfg. build_tf_config hosts current_host ps_num False = Inr cfg"
    by (rule build_tf_config_member_host)
next
  assume "length hosts > 1 \<and> ps_num > 0 \<and> current_host \<in> set (take (nat ps_num) hosts)"
  then show "\<exists>cfg. build_tf_config hosts current_host ps_num True = Inr cfg"
    using build_tf_config_ps_host by blast
next
  fix cfg
  assume a: "build_tf_config hosts current_host ps_num ps_task = Inr cfg"
  note r = build_tf_config_Inr [OF a]
  show "cluster cfg ''ps'' \<noteq> None \<longleftrightarrow> length hosts > 1 \<and> ps_num > 0"
    using r(2) by (simp split: if_splits)
next
  fix cfg
  assume a: "build_tf_config hosts current_host ps_num ps_task = Inr cfg"
    and g: "length hosts > 1 \<and> ps_num > 0"
  note r = build_tf_config_Inr [OF a]
  have "take (min (nat ps_num) (length hosts)) hosts = take (nat ps_num) hosts"
    by (simp add: min_def)
  then show "cluster cfg ''ps'' =
          Some (map (\<lambda>host. host @ '':2223'') (take (min (nat ps_num) (length hosts)) hosts))"
    using r(2) g by (simp add: host_addresses_def)
next
  fix cfg
  assume a: "build_tf_config hosts current_host ps_num ps_task = Inr cfg"
    and one: "length hosts = 1"
  note r = build_tf_config_Inr [OF a]
  have t: "tl hosts = []" using one by (cases hosts) auto
  have "cluster cfg ''ps'' = None" "cluster cfg ''worker'' = None"
    using r(2) r(3) one t by simp_all
  moreover have "cluster cfg ''master'' \<noteq> None" using r(1) by simp
  ultimately show "dom (cluster cfg) = {''master''}" using r(4) by (auto simp: dom_def)
qed

theorem build_tf_config_ps_entry_witness:
  "build_tf_config [''a'', ''b'', ''c''] ''c'' 5 False =
     Inr \<lparr>cluster = [''master'' \<mapsto> [''a:2222''], ''ps'' \<mapsto> [''a:2223'', ''b:2223'', ''c:2223''],
                      ''worker'' \<mapsto> [''b:2222'', ''c:2222'']],
          environment = ''cloud'',
          task = \<lparr>task_index = 1, task_type = ''worker''\<rparr>\<rparr>
   \<and> [''master'' \<mapsto> [''a:2222''], ''ps'' \<mapsto> [''a:2223'', ''b:2223'', ''c:2223''],
                      ''worker'' \<mapsto> [''b:2222'', ''c:2222'']] ''ps''
       = Some (map (\<lambda>host. host @ '':2223'') (take (min (nat 5) (length [''a'', ''b'', ''c''])) [''a'', ''b'', ''c'']))
   \<and> (\<exists>cfg. build_tf_config [''a'', ''b'', ''c''] ''c'' 5 True = Inr cfg)
   \<and> build_tf_config [''a''] ''a'' 5 False =
     Inr \<lparr>cluster = [''master'' \<mapsto> [''a:2222'']], environment = ''cloud'',
          task = \<lparr>task_index = 0, task_type = ''master''\<rparr>\<rparr>
   \<and> dom [''master'' \<mapsto> [''a:2222'']] = {''master''}"
proof -
  have a: "build_tf_config [''a'', ''b'', ''c''] ''c'' 5 False =
     Inr \<lparr>cluster = [''master'' \<mapsto> [''a:2222''], ''ps'' \<mapsto> [''a:2223'', ''b:2223'', ''c:2223''],
                      ''worker'' \<mapsto> [''b:2222'', ''c:2222'']],
          environment = ''cloud'',
          task = \<lparr>task_index = 1, task_type = ''worker''\<rparr>\<rparr>"
    by (simp add: build_tf_config_def slice_to_def slice_from_def host_addresses_def
        is_host_master_def)
  have b: "build_tf_config [''a''] ''a'' 5 False =
     Inr \<lparr>cluster = [''master'' \<mapsto> [''a:2222'']], environment = ''cloud'',
          task = \<lparr>task_index = 0, task_type = ''master''\<rparr>\<rparr>"
    by (simp add: build_tf_config_def slice_to_def slice_from_def host_addresses_def
        is_host_master_def)
  note t1 = build_tf_config_ps_entry [of "''c''" "[''a'', ''b'', ''c'']" 5 False]
  note t2 = build_tf_config_ps_entry [of "''a''" "[''a'']" 5 False]
  have ex: "\<exists>cfg. build_tf_config [''a'', ''b'', ''c''] ''c'' 5 True = Inr cfg"
    by (rule mp [OF t1 [THEN conjunct2, THEN conjunct1]]) simp
  have c1: "[''master'' \<mapsto> [''a:2222''], ''ps'' \<mapsto> [''a:2223'', ''b:2223'', ''c:2223''],
                      ''worker'' \<mapsto> [''b:2222'', ''c:2222'']] ''ps''
       = Some (map (\<lambda>host. host @ '':2223'') (take (min (nat 5) (length [''a'', ''b'', ''c''])) [''a'', ''b'', ''c'']))"
    using t1 [THEN conjunct2, THEN conjunct2, rule_format, OF a] by simp
  have c2: "dom [''master'' \<mapsto> [''a:2222'']] = {''master''}"
    using t2 [THEN conjunct2, THEN conjunct2, rule_format, OF b] by simp
  show ?thesis using a b ex c1 c2 by (intro conjI)
qed

text \<open>
  C2. For \<open>hosts = ["a","b","c"]\<close> and two parameter servers, resolving for host \<open>a\<close> as a
  parameter-server process gives task type \<open>ps\<close> with index 0, resolving for host \<open>b\<close>
  gives index 1, and the cluster lists are \<open>ps = ["a:2223","b:2223"]\<close>,
  \<open>master = ["a:2222"]\<close> and \<open>worker = ["b:2222","c:2222"]\<close>, with no other key.
\<close>

theorem build_tf_config_abc_two_ps:
  "build_tf_config [''a'', ''b'', ''c''] ''a'' 2 True =
     Inr \<lparr>cluster = [''master'' \<mapsto> [''a:2222''], ''ps'' \<mapsto> [''a:2223'', ''b:2223''],
                      ''worker'' \<mapsto> [''b:2222'', ''c:2222'']],
          environment = ''cloud'',
          task = \<lparr>task_index = 0, task_type = ''ps''\<rparr>\<rparr>
   \<and> build_tf_config [''a'', ''b'', ''c''] ''b'' 2 True =
     Inr \<lparr>cluster = [''master'' \<mapsto> [''a:2222''], ''ps'' \<mapsto> [''a:2223'', ''b:2223''],
                      ''worker'' \<mapsto> [''b:2222'', ''c:2222'']],
          environment = ''cloud'',
          task = \<lparr>task_index = 1, task_type = ''ps''\<rparr>\<rparr>"
  by (simp add: build_tf_config_def slice_to_def slice_from_def host_addresses_def
      is_host_master_def)

text \<open>
  C3. For every host list and every count, resolution for a parameter-server process
  (\<open>ps_task = True\<close>) when there is no parameter-server group (\<open>ps_num = 0\<close> or
  \<open>len(hosts) = 1\<close>) raises the \<open>ValueError\<close> of line 74; it returns no descriptor, so no
  master or worker role is assigned instead.
\<close>

theorem build_tf_config_ps_task_without_ps:
  assumes "ps_num = 0 \<or> length hosts = 1"
  shows "build_tf_config hosts current_host ps_num True = Inl ValueError_no_ps \<and>
         is_ValueError ValueError_no_ps \<and>
         (\<forall>cfg. build_tf_config hosts current_host ps_num True \<noteq> Inr cfg)"
proof -
  have "\<not> (length hosts > 1 \<and> ps_num > 0)" using assms by auto
  then have "build_tf_config hosts current_host ps_num True = Inl ValueError_no_ps"
    by (rule build_tf_config_no_ps)
  then show ?thesis by simp
qed

theorem build_tf_config_ps_task_without_ps_witness:
  "build_tf_config [''a'', ''b'', ''c''] ''a'' 0 True = Inl ValueError_no_ps \<and>
   build_tf_config [''a''] ''a'' 2 True = Inl ValueError_no_ps"
  using build_tf_config_ps_task_without_ps [of 0 "[''a'', ''b'', ''c'']" "''a''"]
    build_tf_config_ps_task_without_ps [of 2 "[''a'']" "''a''"]
  by simp

text \<open>
  C4. For a process that is not a parameter server (\<open>ps_task = False\<close>) and a non-empty
  host list: if \<open>current_host\<close> is \<open>hosts[0]\<close> the task is \<open>master\<close> with index 0;
  otherwise, if \<open>current_host\<close> occurs in \<open>workers = hosts[1:]\<close>, the task is \<open>worker\<close>
  and its index is the position of the first occurrence of \<open>current_host\<close> in
  \<open>workers\<close>; and if \<open>current_host\<close> does not occur in \<open>workers\<close>, resolution raises the
  \<open>ValueError\<close> of \<open>list.index\<close> (no index 0 is made up).
\<close>

theorem build_tf_config_role_precedence:
  assumes "hosts \<noteq> []"
  shows "(current_host = hd hosts \<longrightarrow>
            (\<exists>cfg. build_tf_config hosts current_host ps_num False = Inr cfg \<and>
               task cfg = \<lparr>task_index = 0, task_type = ''master''\<rparr>)) \<and>
         (current_host \<noteq> hd hosts \<and> current_host \<in> set (tl hosts) \<longrightarrow>
            (\<exists>cfg i. build_tf_config hosts current_host ps_num False = Inr cfg \<and>
               task cfg = \<lparr>task_index = int i, task_type = ''worker''\<rparr> \<and>
               i < length (tl hosts) \<and> tl hosts ! i = current_host \<and>
               (\<forall>j < i. tl hosts ! j \<noteq> current_host))) \<and>
         (current_host \<noteq> hd hosts \<and> current_host \<notin> set (tl hosts) \<longrightarrow>
            build_tf_config hosts current_host ps_num False =
              Inl (ValueError_not_in_list current_host))"
proof (intro conjI impI)
  assume "current_host = hd hosts"
  then show "\<exists>cfg. build_tf_config hosts current_host ps_num False = Inr cfg \<and>
               task cfg = \<lparr>task_index = 0, task_type = ''master''\<rparr>"
    using build_tf_config_master [OF assms] by simp
next
  assume a: "current_host \<noteq> hd hosts \<and> current_host \<in> set (tl hosts)"
  then obtain k where k: "list_index (tl hosts) current_host = Inr k"
    using list_index_present by blast
  from list_index_Inr [OF k] have p: "0 \<le> k" "nat k < length (tl hosts)"
    "tl hosts ! nat k = current_host" "\<forall>j < nat k. tl hosts ! j \<noteq> current_host"
    by simp_all
  from build_tf_config_not_master(2) [OF assms _ k] a
  obtain cfg where "build_tf_config hosts current_host ps_num False = Inr cfg"
    "task cfg = \<lparr>task_index = k, task_type = ''worker''\<rparr>" by blast
  then have "build_tf_config hosts current_host ps_num False = Inr cfg \<and>
      task cfg = \<lparr>task_index = int (nat k), task_type = ''worker''\<rparr> \<and>
      nat k < length (tl hosts) \<and> tl hosts ! nat k = current_host \<and>
      (\<forall>j < nat k. tl hosts ! j \<noteq> current_host)"
    using p by simp
  then show "\<exists>cfg i. build_tf_config hosts current_host ps_num False = Inr cfg \<and>
               task cfg = \<lparr>task_index = int i, task_type = ''worker''\<rparr> \<and>
               i < length (tl hosts) \<and> tl hosts ! i = current_host \<and>
               (\<forall>j < i. tl hosts ! j \<noteq> current_host)"
    by blast
next
  assume a: "current_host \<noteq> hd hosts \<and> current_host \<notin> set (tl hosts)"
  then have "list_index (tl hosts) current_host = Inl (ValueError_not_in_list current_host)"
    by (simp add: list_index_absent)
  then show "build_tf_config hosts current_host ps_num False =
              Inl (ValueError_not_in_list current_host)"
    using build_tf_config_not_master(1) [OF assms] a by blast
qed

theorem build_tf_config_role_precedence_witness:
  "build_tf_config [''a'', ''b'', ''c''] ''c'' 0 False =
     Inr \<lparr>cluster = [''master'' \<mapsto> [''a:2222''], ''worker'' \<mapsto> [''b:2222'', ''c:2222'']],
          environment = ''cloud'',
          task = \<lparr>task_index = 1, task_type = ''worker''\<rparr>\<rparr> \<and>
   (\<exists>cfg. build_tf_config [''a'', ''b'', ''c''] ''a'' 0 False = Inr cfg \<and>
      task cfg = \<lparr>task_index = 0, task_type = ''master''\<rparr>) \<and>
   build_tf_config [''a'', ''b'', ''c''] ''d'' 0 False = Inl (ValueError_not_in_list ''d'')"
proof -
  have ne: "[''a'', ''b'', ''c''] \<noteq> []" by simp
  have c: "build_tf_config [''a'', ''b'', ''c''] ''c'' 0 False =
     Inr \<lparr>cluster = [''master'' \<mapsto> [''a:2222''], ''worker'' \<mapsto> [''b:2222'', ''c:2222'']],
          environment = ''cloud'',
          task = \<lparr>task_index = 1, task_type = ''worker''\<rparr>\<rparr>"
    by (simp add: build_tf_config_def slice_to_def slice_from_def host_addresses_def
        is_host_master_def)
  show ?thesis
    using build_tf_config_role_precedence [OF ne, of "''a''" 0]
      build_tf_config_role_precedence [OF ne, of "''d''" 0] c
    by simp
qed

text \<open>
  C9. If resolution succeeds on one host both for the parameter-server process and for
  the worker process, the two descriptors have the same \<open>cluster\<close> and the same
  \<open>environment\<close>; they differ at most in \<open>task\<close>. The same holds for the environments
  built by \<open>_env_vars_with_tf_config\<close>: they agree on every variable but \<open>TF_CONFIG\<close>,
  and the two \<open>TF_CONFIG\<close> values serialise descriptors with the same cluster.
\<close>

theorem build_tf_config_same_cluster:
  "(build_tf_config hosts current_host ps_num True = Inr cfg_ps \<and>
    build_tf_config hosts current_host ps_num False = Inr cfg_worker \<longrightarrow>
      cluster cfg_ps = cluster cfg_worker \<and>
      environment cfg_ps = environment cfg_worker \<and>
      cfg_ps = cfg_worker\<lparr>task := task cfg_ps\<rparr>) \<and>
   (env_vars_with_tf_config env True = Inr ev_ps \<and>
    env_vars_with_tf_config env False = Inr ev_worker \<longrightarrow>
      (\<exists>a b. ev_ps ''TF_CONFIG'' = Some (JsonDumps a) \<and>
             ev_worker ''TF_CONFIG'' = Some (JsonDumps b) \<and>
             cluster a = cluster b \<and> environment a = environment b) \<and>
      (\<forall>k. k \<noteq> ''TF_CONFIG'' \<longrightarrow> ev_ps k = ev_worker k))"
proof (intro conjI impI)
  have same: "cluster a = cluster b \<and> environment a = environment b"
    if "build_tf_config h c n True = Inr a" "build_tf_config h c n False = Inr b"
    for h c n a b
  proof -
    have "cluster a = cluster b"
    proof (rule ext)
      fix k
      show "cluster a k = cluster b k"
      proof (cases "k \<in> {''master'', ''ps'', ''worker''}")
        case True
        then show ?thesis
          using build_tf_config_Inr(1-3) [OF that(1)] build_tf_config_Inr(1-3) [OF that(2)]
          by auto
      next
        case False
        then have "k \<notin> dom (cluster a)" "k \<notin> dom (cluster b)"
          using build_tf_config_Inr(4) [OF that(1)] build_tf_config_Inr(4) [OF that(2)]
          by auto
        then show ?thesis by (simp add: domIff)
      qed
    qed
    then show ?thesis
      using build_tf_config_Inr(5) [OF that(1)] build_tf_config_Inr(5) [OF that(2)] by simp
  qed
  {
    assume a: "build_tf_config hosts current_host ps_num True = Inr cfg_ps \<and>
      build_tf_config hosts current_host ps_num False = Inr cfg_worker"
    from same [of hosts current_host ps_num cfg_ps cfg_worker] a
    show "cluster cfg_ps = cluster cfg_worker" "environment cfg_ps = environment cfg_worker"
      by simp_all
    then show "cfg_ps = cfg_worker\<lparr>task := task cfg_ps\<rparr>" by simp
  }
  {
    assume e: "env_vars_with_tf_config env True = Inr ev_ps \<and>
      env_vars_with_tf_config env False = Inr ev_worker"
    then obtain n a b where
      a: "build_tf_config (env_hosts env) (env_current_host env) n True = Inr a"
        "ev_ps = (to_env_vars env)(''TF_CONFIG'' \<mapsto> JsonDumps a)" and
      b: "build_tf_config (env_hosts env) (env_current_host env) n False = Inr b"
        "ev_worker = (to_env_vars env)(''TF_CONFIG'' \<mapsto> JsonDumps b)"
      unfolding env_vars_with_tf_config_def Let_def
      by (auto split: option.splits sum.splits if_splits)
    from same [OF a(1) b(1)] a(2) b(2)
    show "\<exists>a b. ev_ps ''TF_CONFIG'' = Some (JsonDumps a) \<and>
             ev_worker ''TF_CONFIG'' = Some (JsonDumps b) \<and>
             cluster a = cluster b \<and> environment a = environment b"
      by auto
    show "\<forall>k. k \<noteq> ''TF_CONFIG'' \<longrightarrow> ev_ps k = ev_worker k"
      using a(2) b(2) by simp
  }
qed


theorem build_tf_config_same_cluster_witness:
  "build_tf_config [''a'', ''b'', ''c''] ''b'' 2 True =
     Inr \<lparr>cluster = cluster_abc_two_ps, environment = ''cloud'',
          task = \<lparr>task_index = 1, task_type = ''ps''\<rparr>\<rparr> \<and>
   build_tf_config [''a'', ''b'', ''c''] ''b'' 2 False =
     Inr \<lparr>cluster = cluster_abc_two_ps, environment = ''cloud'',
          task = \<lparr>task_index = 0, task_type = ''worker''\<rparr>\<rparr> \<and>
   \<lparr>cluster = cluster_abc_two_ps, environment = ''cloud'',
          task = \<lparr>task_index = 1, task_type = ''ps''\<rparr>\<rparr> =
   \<lparr>cluster = cluster_abc_two_ps, environment = ''cloud'',
          task = \<lparr>task_index = 0, task_type = ''worker''\<rparr>\<rparr>
     \<lparr>task := \<lparr>task_index = 1, task_type = ''ps''\<rparr>\<rparr> \<and>
   (\<exists>ev_ps ev_worker a b.
      env_vars_with_tf_config (example_env [''a'', ''b'', ''c''] ''b'' (Some 2)) True = Inr ev_ps \<and>
      env_vars_with_tf_config (example_env [''a'', ''b'', ''c''] ''b'' (Some 2)) False = Inr ev_worker \<and>
      ev_ps ''TF_CONFIG'' = Some (JsonDumps a) \<and>
      ev_worker ''TF_CONFIG'' = Some (JsonDumps b) \<and>
      cluster a = cluster b \<and> environment a = environment b)"
proof -
  let ?p = "\<lparr>cluster = cluster_abc_two_ps, environment = ''cloud'',
          task = \<lparr>task_index = 1, task_type = ''ps''\<rparr>\<rparr>"
  let ?w = "\<lparr>cluster = cluster_abc_two_ps, environment = ''cloud'',
          task = \<lparr>task_index = 0, task_type = ''worker''\<rparr>\<rparr>"
  let ?b = "[''SM_CURRENT_HOST'' \<mapsto> Str ''b'']"
  note t = build_tf_config_same_cluster
    [of "[''a'', ''b'', ''c'']" "''b''" 2 ?p ?w "example_env [''a'', ''b'', ''c''] ''b'' (Some 2)"
        "?b(''TF_CONFIG'' \<mapsto> JsonDumps ?p)" "?b(''TF_CONFIG'' \<mapsto> JsonDumps ?w)"]
  have 1: "?p = ?w\<lparr>task := task ?p\<rparr>"
    using t build_abc_b_ps build_abc_b_worker by simp
  have 2: "\<exists>a b. (?b(''TF_CONFIG'' \<mapsto> JsonDumps ?p)) ''TF_CONFIG'' = Some (JsonDumps a) \<and>
             (?b(''TF_CONFIG'' \<mapsto> JsonDumps ?w)) ''TF_CONFIG'' = Some (JsonDumps b) \<and>
             cluster a = cluster b \<and> environment a = environment b"
    using t env_abc_b_ps env_abc_b_worker by blast
  show ?thesis
    using 1 2 build_abc_b_ps build_abc_b_worker env_abc_b_ps env_abc_b_worker
    by auto
qed

text \<open>
  C10. A descriptor that resolution returns is consistent with itself: the task type is
  a key of the cluster dictionary, the task index is a valid position in the list under
  that key, and the address at that position is \<open>current_host\<close> followed by \<open>:\<close> and the
  port of the role (2223 for \<open>ps\<close>, 2222 for \<open>master\<close> and \<open>worker\<close>).
\<close>

theorem build_tf_config_task_consistent:
  assumes "build_tf_config hosts current_host ps_num ps_task = Inr cfg"
  shows "task_type (task cfg) \<in> {''master'', ''worker'', ''ps''} \<and>
         (\<exists>l. cluster cfg (task_type (task cfg)) = Some l \<and>
              0 \<le> task_index (task cfg) \<and>
              task_index (task cfg) < int (length l) \<and>
              l ! nat (task_index (task cfg)) =
                current_host @ '':'' @
                  (if task_type (task cfg) = ''ps'' then ''2223'' else ''2222''))"
proof (cases ps_task)
  case True
  with assms have a: "build_tf_config hosts current_host ps_num True = Inr cfg" by simp
  from build_tf_config_ps_task_Inr [OF a]
  have g: "length hosts > 1 \<and> ps_num > 0" and ty: "task_type (task cfg) = ''ps''"
    and ix: "list_index (take (nat ps_num) hosts) current_host = Inr (task_index (task cfg))"
    by simp_all
  from list_index_Inr [OF ix]
  have p: "0 \<le> task_index (task cfg)"
    "nat (task_index (task cfg)) < length (take (nat ps_num) hosts)"
    "take (nat ps_num) hosts ! nat (task_index (task cfg)) = current_host"
    by simp_all
  have c: "cluster cfg ''ps'' = Some (host_addresses (take (nat ps_num) hosts) ''2223'')"
    using build_tf_config_Inr(2) [OF assms] g by simp
  define l where "l = host_addresses (take (nat ps_num) hosts) ''2223''"
  have len: "length l = length (take (nat ps_num) hosts)"
    by (simp add: l_def host_addresses_def)
  have lt: "task_index (task cfg) < int (length l)"
    using p(1,2) len by linarith
  have el: "l ! nat (task_index (task cfg)) = current_host @ '':'' @ ''2223''"
    unfolding l_def host_addresses_def using p(2,3) by (simp del: nth_take length_take)
  have "cluster cfg (task_type (task cfg)) = Some l" using c ty l_def by simp
  then show ?thesis using ty p(1) lt el by auto
next
  case False
  with assms have a: "build_tf_config hosts current_host ps_num False = Inr cfg" by simp
  note w = build_tf_config_worker_task_Inr [OF a]
  then have ne: "hosts \<noteq> []" by simp
  show ?thesis
  proof (cases "current_host = hd hosts")
    case True
    with w have t: "task cfg = \<lparr>task_index = 0, task_type = ''master''\<rparr>" by simp
    have c: "cluster cfg ''master'' = Some (host_addresses (take 1 hosts) ''2222'')"
      using build_tf_config_Inr(1) [OF assms] .
    have "take 1 hosts = [current_host]" using ne True by (cases hosts) auto
    then show ?thesis using t c by (simp add: host_addresses_def)
  next
    case False
    with w have ty: "task_type (task cfg) = ''worker''"
      and ix: "list_index (tl hosts) current_host = Inr (task_index (task cfg))" by simp_all
    from list_index_Inr [OF ix]
    have p: "0 \<le> task_index (task cfg)"
      "nat (task_index (task cfg)) < length (tl hosts)"
      "tl hosts ! nat (task_index (task cfg)) = current_host"
      by simp_all
    have "tl hosts \<noteq> []" using p(2) by (cases "tl hosts") simp_all
    then have c: "cluster cfg ''worker'' = Some (host_addresses (tl hosts) ''2222'')"
      using build_tf_config_Inr(3) [OF assms] by simp
    define l where "l = host_addresses (tl hosts) ''2222''"
    have len: "length l = length (tl hosts)"
      by (simp add: l_def host_addresses_def)
    have lt: "task_index (task cfg) < int (length l)"
      using p(1,2) len by linarith
    have el: "l ! nat (task_index (task cfg)) = current_host @ '':'' @ ''2222''"
      unfolding l_def host_addresses_def using p(2,3) by (simp del: length_tl)
    have "cluster cfg (task_type (task cfg)) = Some l" using c ty l_def by simp
    then show ?thesis using ty p(1) lt el by auto
  qed
qed


theorem build_tf_config_task_consistent_witness:
  "build_tf_config [''a'', ''b'', ''c''] ''b'' 2 True =
     Inr \<lparr>cluster = cluster_abc_two_ps, environment = ''cloud'',
          task = \<lparr>task_index = 1, task_type = ''ps''\<rparr>\<rparr> \<and>
   cluster_abc_two_ps ''ps'' = Some [''a:2223'', ''b:2223''] \<and>
   (1::int) < int (length [''a:2223'', ''b:2223'']) \<and>
   [''a:2223'', ''b:2223''] ! nat 1 = ''b'' @ '':'' @ ''2223''"
proof -
  let ?cfg = "\<lparr>cluster = cluster_abc_two_ps, environment = ''cloud'',
          task = \<lparr>task_index = 1, task_type = ''ps''\<rparr>\<rparr>"
  from build_tf_config_task_consistent [OF build_abc_b_ps]
  obtain l where l: "cluster ?cfg (task_type (task ?cfg)) = Some l"
    "task_index (task ?cfg) < int (length l)"
    "l ! nat (task_index (task ?cfg)) =
       ''b'' @ '':'' @ (if task_type (task ?cfg) = ''ps'' then ''2223'' else ''2222'')"
    by blast
  have c: "cluster_abc_two_ps ''ps'' = Some [''a:2223'', ''b:2223'']"
    by (simp add: cluster_abc_two_ps_def)
  with l(1) have e: "l = [''a:2223'', ''b:2223'']" by simp
  have "(1::int) < int (length [''a:2223'', ''b:2223''])"
    using l(2) unfolding e by simp
  moreover have "[''a:2223'', ''b:2223''] ! nat 1 = ''b'' @ '':'' @ ''2223''"
    using l(3) unfolding e by simp
  ultimately show ?thesis using build_abc_b_ps c by blast
qed

section \<open>Properties of the dispatcher and of the poller\<close>

text \<open>
  C5, as the code has it. When \<open>len(hosts) = 1\<close>, or the hyperparameter
  \<open>sagemaker_parameter_server_num\<close> is absent or 0, \<open>train\<close> does not resolve the
  topology at all: it makes exactly one call,
  \<open>run_module(module_dir, to_cmd_args(), to_env_vars(), module_name)\<close>, which blocks
  (\<open>wait\<close> is left at its default), and the environment of that launch is
  \<open>env.to_env_vars()\<close> unchanged. No exception is raised.
\<close>

theorem train_single_launch:
  assumes "length (env_hosts env) = 1 \<or>
           additional_framework_parameters env SAGEMAKER_PARAMETER_SERVER_NUM = None \<or>
           additional_framework_parameters env SAGEMAKER_PARAMETER_SERVER_NUM = Some 0"
  shows "train returncode env =
           Some (None, [RunModule (env_module_dir env) (to_cmd_args env) (to_env_vars env)
                          (env_module_name env) run_module_default_wait]) \<and>
         run_module_default_wait"
  using assms unfolding train_def Let_def
  by (auto simp: run_module_default_wait_def split: option.splits)

theorem train_single_launch_witness:
  "train returncode_always_up (example_env [''a''] ''a'' (Some 2)) =
     Some (None, [RunModule ''s3://bucket/sourcedir.tar.gz'' [''--epochs'', ''1'']
                    [''SM_CURRENT_HOST'' \<mapsto> Str ''a''] ''train'' True]) \<and>
   train returncode_always_up (example_env [''a'', ''b'', ''c''] ''b'' None) =
     Some (None, [RunModule ''s3://bucket/sourcedir.tar.gz'' [''--epochs'', ''1'']
                    [''SM_CURRENT_HOST'' \<mapsto> Str ''b''] ''train'' True]) \<and>
   train returncode_always_up (example_env [''a'', ''b'', ''c''] ''b'' (Some 0)) =
     Some (None, [RunModule ''s3://bucket/sourcedir.tar.gz'' [''--epochs'', ''1'']
                    [''SM_CURRENT_HOST'' \<mapsto> Str ''b''] ''train'' True])"
  using train_single_launch [of "example_env [''a''] ''a'' (Some 2)" returncode_always_up]
    train_single_launch [of "example_env [''a'', ''b'', ''c''] ''b'' None" returncode_always_up]
    train_single_launch [of "example_env [''a'', ''b'', ''c''] ''b'' (Some 0)" returncode_always_up]
  by (simp add: example_env_def run_module_default_wait_def)

text \<open>
  C5, as it is stated, fails. The claim says that in this case the descriptor resolved
  with \<open>ps_task = False\<close> is part of the environment handed to the launch. On the single
  host \<open>a\<close> with no parameter-server count, the environment of the launch has no
  \<open>TF_CONFIG\<close> variable, although resolution would have produced one.
\<close>

theorem train_single_launch_without_tf_config:
  "train returncode_always_up (example_env [''a''] ''a'' None) =
     Some (None, [RunModule ''s3://bucket/sourcedir.tar.gz'' [''--epochs'', ''1'']
                    [''SM_CURRENT_HOST'' \<mapsto> Str ''a''] ''train'' True]) \<and>
   [''SM_CURRENT_HOST'' \<mapsto> Str ''a''] ''TF_CONFIG'' = None \<and>
   env_vars_with_tf_config (example_env [''a''] ''a'' None) False =
     Inr [''SM_CURRENT_HOST'' \<mapsto> Str ''a'',
          ''TF_CONFIG'' \<mapsto> JsonDumps \<lparr>cluster = [''master'' \<mapsto> [''a:2222'']],
             environment = ''cloud'', task = \<lparr>task_index = 0, task_type = ''master''\<rparr>\<rparr>]"
proof (intro conjI)
  show "train returncode_always_up (example_env [''a''] ''a'' None) =
     Some (None, [RunModule ''s3://bucket/sourcedir.tar.gz'' [''--epochs'', ''1'']
                    [''SM_CURRENT_HOST'' \<mapsto> Str ''a''] ''train'' True])"
    by (simp add: train_def example_env_def run_module_default_wait_def)
  show "[''SM_CURRENT_HOST'' \<mapsto> Str ''a''] ''TF_CONFIG'' = None"
    by simp
  have "build_tf_config [''a''] ''a'' 0 False =
     Inr \<lparr>cluster = [''master'' \<mapsto> [''a:2222'']],
             environment = ''cloud'', task = \<lparr>task_index = 0, task_type = ''master''\<rparr>\<rparr>"
    by (simp add: build_tf_config_def slice_to_def slice_from_def host_addresses_def
        is_host_master_def)
  then show "env_vars_with_tf_config (example_env [''a''] ''a'' None) False =
     Inr [''SM_CURRENT_HOST'' \<mapsto> Str ''a'',
          ''TF_CONFIG'' \<mapsto> JsonDumps \<lparr>cluster = [''master'' \<mapsto> [''a:2222'']],
             environment = ''cloud'', task = \<lparr>task_index = 0, task_type = ''master''\<rparr>\<rparr>]"
    by (simp add: env_vars_with_tf_config_def example_env_def)
qed






text \<open>
  C7. The poller, started on the sequence of exit statuses of the probes: it returns if
  and only if some probe fails; when the first \<open>up\<close> probes succeed and the next one fails,
  it has made exactly \<open>up\<close> successful probes, each followed by \<open>time.sleep(10)\<close>, and one
  failing probe, and then returns; when the first probe fails it returns after that
  single probe; and when no probe ever fails it never returns (there is no bound on the
  number of probes).
\<close>

theorem wait_until_master_is_down_returns:
  "(wait_until_master_is_down returncode master 0 [] \<noteq> None \<longleftrightarrow>
      (\<exists>k. returncode k \<noteq> 0)) \<and>
   ((\<forall>j < up. returncode j = 0) \<and> returncode up \<noteq> 0 \<longrightarrow>
      wait_until_master_is_down returncode master 0 [] =
        Some (concat (replicate up [CheckCall [''curl'', master @ '':2222''], Sleep 10]) @
              [CheckCall [''curl'', master @ '':2222'']])) \<and>
   (returncode 0 \<noteq> 0 \<longrightarrow>
      wait_until_master_is_down returncode master 0 [] =
        Some [CheckCall [''curl'', master @ '':2222'']]) \<and>
   ((\<forall>k. returncode k = 0) \<longrightarrow>
      wait_until_master_is_down returncode master 0 [] = None)"
proof (intro conjI impI)
  have run: "wait_until_master_is_down returncode master 0 [] =
        Some (concat (replicate n [CheckCall [''curl'', master @ '':2222''], Sleep 10]) @
              [CheckCall [''curl'', master @ '':2222'']])"
    if "(\<forall>j < n. returncode j = 0) \<and> returncode n \<noteq> 0" for n
    using wait_until_master_is_down_up [of n returncode 0 master "[]"] that
    by (simp add: curl_master_def)
  show "wait_until_master_is_down returncode master 0 [] \<noteq> None \<longleftrightarrow>
      (\<exists>k. returncode k \<noteq> 0)"
  proof
    assume "wait_until_master_is_down returncode master 0 [] \<noteq> None"
    then obtain out where "wait_until_master_is_down returncode master 0 [] = Some out"
      by auto
    from wait_until_master_is_down_Some [OF this]
    obtain k where "0 \<le> k \<and> returncode k \<noteq> 0" ..
    then have "returncode k \<noteq> 0" ..
    then show "\<exists>k. returncode k \<noteq> 0" ..
  next
    assume "\<exists>k. returncode k \<noteq> 0"
    then obtain k where "returncode k \<noteq> 0" ..
    from first_failing_probe [of returncode k, OF this]
    obtain n where "(\<forall>j < n. returncode j = 0) \<and> returncode n \<noteq> 0" ..
    from run [OF this] show "wait_until_master_is_down returncode master 0 [] \<noteq> None"
      by simp
  qed
  show "wait_until_master_is_down returncode master 0 [] =
        Some (concat (replicate up [CheckCall [''curl'', master @ '':2222''], Sleep 10]) @
              [CheckCall [''curl'', master @ '':2222'']])"
    if "(\<forall>j < up. returncode j = 0) \<and> returncode up \<noteq> 0"
    using run [OF that] .
  show "wait_until_master_is_down returncode master 0 [] =
        Some [CheckCall [''curl'', master @ '':2222'']]"
    if "returncode 0 \<noteq> 0"
    using run [of 0] that by simp
  show "wait_until_master_is_down returncode master 0 [] = None"
    if "\<forall>k. returncode k = 0"
    using that by (rule wait_until_master_is_down_always_up)
qed

theorem wait_until_master_is_down_returns_witness:
  "wait_until_master_is_down (returncode_down_after 2) ''a'' 0 [] =
     Some [CheckCall [''curl'', ''a:2222''], Sleep 10,
           CheckCall [''curl'', ''a:2222''], Sleep 10,
           CheckCall [''curl'', ''a:2222'']] \<and>
   wait_until_master_is_down (returncode_down_after 0) ''a'' 0 [] =
     Some [CheckCall [''curl'', ''a:2222'']] \<and>
   wait_until_master_is_down returncode_always_up ''a'' 0 [] = None"
proof (intro conjI)
  have "(\<forall>j < 2. returncode_down_after 2 j = 0) \<and> returncode_down_after 2 2 \<noteq> 0"
    by (simp add: returncode_down_after_def)
  with wait_until_master_is_down_returns
    [of "returncode_down_after 2" "''a''" 2, THEN conjunct2, THEN conjunct1]
  have "wait_until_master_is_down (returncode_down_after 2) ''a'' 0 [] =
        Some (concat (replicate 2 [CheckCall [''curl'', ''a'' @ '':2222''], Sleep 10]) @
              [CheckCall [''curl'', ''a'' @ '':2222'']])"
    by (rule mp)
  then show "wait_until_master_is_down (returncode_down_after 2) ''a'' 0 [] =
     Some [CheckCall [''curl'', ''a:2222''], Sleep 10,
           CheckCall [''curl'', ''a:2222''], Sleep 10,
           CheckCall [''curl'', ''a:2222'']]"
    by (simp add: numeral_2_eq_2)
  have "returncode_down_after 0 0 \<noteq> 0" by (simp add: returncode_down_after_def)
  with wait_until_master_is_down_returns
    [of "returncode_down_after 0" "''a''" 0, THEN conjunct2, THEN conjunct2, THEN conjunct1]
  show "wait_until_master_is_down (returncode_down_after 0) ''a'' 0 [] =
     Some [CheckCall [''curl'', ''a:2222'']]"
    by simp
  have "\<forall>k. returncode_always_up k = 0" by (simp add: returncode_always_up_def)
  with wait_until_master_is_down_returns
    [of returncode_always_up "''a''" 0, THEN conjunct2, THEN conjunct2, THEN conjunct2]
  show "wait_until_master_is_down returncode_always_up ''a'' 0 [] = None"
    by simp
qed

end
